theory Spec2Isabelle
  imports Main
begin

section \<open>UpgradeMessageView (lms/static/js/learner_dashboard/views/upgrade_message_view.js)\<close>

text \<open>
  The view has two methods, \<open>initialize(options)\<close> and \<open>render()\<close>. Both work on the
  view object \<open>this\<close> and on the page around it: the Backbone models, the content of
  the DOM elements, and the collaborators they call. The embedding passes the view and
  the page explicitly. Every call of a collaborator and every assignment to the view
  is appended to a trace, in program order, so that what was called, with what, and in
  which order can be stated.
\<close>

subsection \<open>Values and objects\<close>

text \<open>
  A JavaScript value that is not \<open>undefined\<close>. A value that may be \<open>undefined\<close> is a
  \<open>jsval option\<close>, with \<open>None\<close> for \<open>undefined\<close>.
\<close>

datatype jsval = JNull | JBool bool | JNum int | JStr string

text \<open>
  A plain object is a map from property names to values. \<open>obj k = None\<close> says that
  \<open>obj[k]\<close> reads \<open>undefined\<close>: the property is missing, or it holds \<open>undefined\<close>,
  which \<open>$.extend\<close> skips like a missing one.
\<close>

type_synonym jsobject = "string \<rightharpoonup> jsval"

text \<open>The truth value of a condition \<open>if (x)\<close>.\<close>

fun truthy :: "jsval option \<Rightarrow> bool" where
  "truthy None = False"
| "truthy (Some JNull) = False"
| "truthy (Some (JBool b)) = b"
| "truthy (Some (JNum n)) = (n \<noteq> 0)"
| "truthy (Some (JStr s)) = (s \<noteq> [])"

text \<open>
  \<open>$.extend(target, object)\<close>: the properties of \<open>object\<close> are written onto \<open>target\<close>,
  which is returned; the properties \<open>object\<close> does not have keep the target's value.
\<close>

definition jq_extend :: "jsobject \<Rightarrow> jsobject \<Rightarrow> jsobject" where
  "jq_extend target object = target ++ object"

subsection \<open>Markup\<close>

text \<open>
  Markup, as the DOM holds it once set: text nodes and elements with a tag, a list of
  classes and children.
\<close>

datatype node = Text string | Element string "string list" "node list"

text \<open>
  The elements at or below a node that carry a class, in document order; and jQuery's
  \<open>find\<close> on the content of an element, for a class selector \<open>.name\<close> (the only kind of
  selector the view uses).
\<close>

fun with_class :: "string \<Rightarrow> node \<Rightarrow> node list" where
  "with_class c (Text s) = []"
| "with_class c (Element t cs kids) =
     (if c \<in> set cs then [Element t cs kids] else []) @ concat (map (with_class c) kids)"

fun jq_find :: "string \<Rightarrow> node list \<Rightarrow> node list" where
  "jq_find [] ns = []"
| "jq_find (d # c) ns = (if d = CHR ''.'' then concat (map (with_class c) ns) else [])"

subsection \<open>The view, its options and the page\<close>

text \<open>The two templates the file imports.\<close>

datatype template_src = upgradeMessageTpl | upgradeMessageSubscriptionTpl

type_synonym el = nat
type_synonym model_ref = nat

text \<open>
  The view object: \<open>this.messageTpl\<close> (the function \<open>HtmlUtils.template\<close> returned for
  a template, or \<open>undefined\<close>), \<open>this.$el\<close> and \<open>this.model\<close>, which Backbone's
  constructor attaches before it calls \<open>initialize\<close>.
\<close>

record view =
  messageTpl :: "template_src option"
  view_el :: "el option"
  model :: "model_ref option"

text \<open>The options record: \<open>options.is_eligible_for_subscription\<close> and \<open>options.$el\<close>.\<close>

record options =
  is_eligible_for_subscription :: "jsval option"
  el :: "el option"

text \<open>The third argument of \<open>trackUpsellClick\<close>.\<close>

record track_context =
  linkType :: string
  pageName :: string
  linkCategory :: string

text \<open>
  What the two methods do, step by step: the calls they make, with their arguments,
  and the assignments to \<open>this.messageTpl\<close> and \<open>this.$el\<close>.
\<close>

datatype event =
    Template template_src
  | SetMessageTpl template_src
  | SetEl "el option"
  | ToJSON model_ref
  | Extend jsobject jsobject
  | MessageTpl template_src jsobject
  | SetHtml "el option" "node list"
  | Find el string
  | TrackUpsellClick "node list" string track_context

text \<open>
  The page: the attributes of every model, the content of every element, and the
  trace of the steps taken so far, in program order.
\<close>

record world =
  attributes :: "model_ref \<Rightarrow> jsobject"
  content :: "el \<Rightarrow> node list"
  trace :: "event list"

datatype error = TypeError

text \<open>
  A method returns, or throws; either way it leaves a view and a page behind.
\<close>

datatype outcome = Done view world | Threw error view world

fun final_view :: "outcome \<Rightarrow> view" where
  "final_view (Done v w) = v"
| "final_view (Threw e v w) = v"

fun final_world :: "outcome \<Rightarrow> world" where
  "final_world (Done v w) = w"
| "final_world (Threw e v w) = w"

fun completes :: "outcome \<Rightarrow> bool" where
  "completes (Done v w) = True"
| "completes (Threw e v w) = False"

subsection \<open>Collaborators\<close>

definition log_event :: "event \<Rightarrow> world \<Rightarrow> world" where
  "log_event ev w = w\<lparr>trace := trace w @ [ev]\<rparr>"

text \<open>
  \<open>model.toJSON()\<close> returns a copy of the model's attributes.
\<close>

definition toJSON :: "model_ref \<Rightarrow> world \<Rightarrow> jsobject" where
  "toJSON m w = attributes w m"

text \<open>
  \<open>HtmlUtils.setHtml(element, html)\<close> is \<open>$(element).html(...)\<close>: it replaces the
  content of the element; on \<open>undefined\<close>, which wraps no element, it changes nothing.
\<close>

fun setHtml :: "el option \<Rightarrow> node list \<Rightarrow> world \<Rightarrow> world" where
  "setHtml None html w = log_event (SetHtml None html) w"
| "setHtml (Some e) html w =
     log_event (SetHtml (Some e) html) (w\<lparr>content := (content w)(e := html)\<rparr>)"

text \<open>
  Modelled from the spec: \<open>trackECommerceEvents.trackUpsellClick\<close>, of
  \<open>commerce/track_ecommerce_events\<close>, which the file imports. It takes the elements,
  the event category and the context, returns nothing that is used, and attaches click
  listeners: nothing of it runs at registration, so the call is recorded and the page
  is otherwise left as it is.
\<close>

definition trackUpsellClick :: "node list \<Rightarrow> string \<Rightarrow> track_context \<Rightarrow> world \<Rightarrow> world" where
  "trackUpsellClick elts name params w = log_event (TrackUpsellClick elts name params) w"

subsection \<open>The two methods\<close>

text \<open>
  The two templates are files of their own, which this file imports; the methods take
  them as the parameter \<open>tpl\<close>. \<open>tpl t data\<close> is the markup that the function
  \<open>HtmlUtils.template(t)\<close> returns for \<open>data\<close>, as \<open>setHtml\<close> puts it into the DOM.
\<close>

definition render :: "(template_src \<Rightarrow> jsobject \<Rightarrow> node list) \<Rightarrow> view \<Rightarrow> world \<Rightarrow> outcome" where
  "render tpl this w =
     (case model this of
        None \<Rightarrow> Threw TypeError this w
      | Some m \<Rightarrow>
          let json = toJSON m w;
              w1 = log_event (ToJSON m) w;
              defaults = [''is_eligible_for_subscription'' \<mapsto> JBool True,
                          ''subscription_state'' \<mapsto> JStr ''active'',
                          ''subscription_price'' \<mapsto> JStr ''$39'',
                          ''trial_length'' \<mapsto> JNum 7];
              data = jq_extend defaults json;
              w2 = log_event (Extend defaults json) w1
          in (case messageTpl this of
                None \<Rightarrow> Threw TypeError this w2
              | Some t \<Rightarrow>
                  let html = tpl t data;
                      w3 = log_event (MessageTpl t data) w2
                  in Done this (setHtml (view_el this) html w3)))"

text \<open>
  \<open>this.messageTpl = HtmlUtils.template(t)\<close> and \<open>this.$el = options.$el\<close>.
\<close>

definition assign_messageTpl :: "template_src \<Rightarrow> view \<Rightarrow> world \<Rightarrow> view \<times> world" where
  "assign_messageTpl t this w =
     (this\<lparr>messageTpl := Some t\<rparr>, log_event (SetMessageTpl t) (log_event (Template t) w))"

definition assign_el :: "el option \<Rightarrow> view \<Rightarrow> world \<Rightarrow> view \<times> world" where
  "assign_el e this w = (this\<lparr>view_el := e\<rparr>, log_event (SetEl e) w)"

definition initialize ::
  "(template_src \<Rightarrow> jsobject \<Rightarrow> node list) \<Rightarrow> view \<Rightarrow> options \<Rightarrow> world \<Rightarrow> outcome" where
  "initialize tpl this opts w =
     (let (this1, w1) =
            (if truthy (is_eligible_for_subscription opts)
             then assign_messageTpl upgradeMessageSubscriptionTpl this w
             else assign_messageTpl upgradeMessageTpl this w);
          (this2, w2) = assign_el (el opts) this1 w1
      in (case render tpl this2 w2 of
            Threw err this3 w3 \<Rightarrow> Threw err this3 w3
          | Done this3 w3 \<Rightarrow>
              (case view_el this3 of
                 None \<Rightarrow> Threw TypeError this3 w3
               | Some e \<Rightarrow>
                   let courseUpsellButtons =
                         jq_find ''.program_dashboard_course_upsell_button'' (content w3 e);
                       w4 = log_event (Find e ''.program_dashboard_course_upsell_button'') w3
                   in Done this3
                        (trackUpsellClick courseUpsellButtons ''program_dashboard_course''
                           \<lparr>linkType = ''button'', pageName = ''program_dashboard'',
                            linkCategory = ''green_upgrade''\<rparr> w4))))"

subsection \<open>Reading the trace, and the life of a view\<close>

text \<open>The template invocations, the markup set and the tracking registrations of a trace.\<close>

fun template_calls :: "event list \<Rightarrow> (template_src \<times> jsobject) list" where
  "template_calls [] = []"
| "template_calls (MessageTpl t d # evs) = (t, d) # template_calls evs"
| "template_calls (ev # evs) = template_calls evs"

fun html_set :: "event list \<Rightarrow> (el option \<times> node list) list" where
  "html_set [] = []"
| "html_set (SetHtml e html # evs) = (e, html) # html_set evs"
| "html_set (ev # evs) = html_set evs"

fun tracking_calls :: "event list \<Rightarrow> (node list \<times> string \<times> track_context) list" where
  "tracking_calls [] = []"
| "tracking_calls (TrackUpsellClick elts name params # evs) =
     (elts, name, params) # tracking_calls evs"
| "tracking_calls (ev # evs) = tracking_calls evs"

text \<open>
  All nodes at or below a node, in document order, and whether a node is an element
  that carries a class: what a class selector matches, said without \<open>jq_find\<close>.
\<close>

fun subnodes :: "node \<Rightarrow> node list" where
  "subnodes (Text s) = [Text s]"
| "subnodes (Element t cs kids) = Element t cs kids # concat (map subnodes kids)"

fun has_class :: "string \<Rightarrow> node \<Rightarrow> bool" where
  "has_class c (Text s) = False"
| "has_class c (Element t cs kids) = (c \<in> set cs)"

text \<open>
  The view after further \<open>render\<close> calls, one for each page of the list: the page may
  have changed in any way between two calls.
\<close>

fun after_renders :: "(template_src \<Rightarrow> jsobject \<Rightarrow> node list) \<Rightarrow> view \<Rightarrow> world list \<Rightarrow> view" where
  "after_renders tpl this [] = this"
| "after_renders tpl this (w # ws) = after_renders tpl (final_view (render tpl this w)) ws"

subsection \<open>An example page\<close>

text \<open>
  Example templates, to run the methods on: the standard message shows the price and
  an upsell button, the subscription message has no such button.
\<close>

fun example_tpl :: "template_src \<Rightarrow> jsobject \<Rightarrow> node list" where
  "example_tpl upgradeMessageTpl d =
     [Element ''div'' [''upgrade-message'']
        [Text (case d ''subscription_price'' of Some (JStr s) \<Rightarrow> s | _ \<Rightarrow> []),
         Element ''a'' [''btn'', ''program_dashboard_course_upsell_button''] [Text ''Upgrade'']]]"
| "example_tpl upgradeMessageSubscriptionTpl d =
     [Element ''div'' [''subscription-message''] [Text ''Subscribe'']]"

text \<open>
  A view as Backbone hands it to \<open>initialize\<close>, with model 0 attached or with none,
  and a page on which model 0 has the attributes given and every element is empty.
\<close>

definition fresh_view :: "model_ref option \<Rightarrow> view" where
  "fresh_view m = \<lparr>messageTpl = None, view_el = None, model = m\<rparr>"

definition page_with :: "jsobject \<Rightarrow> world" where
  "page_with attrs = \<lparr>attributes = (\<lambda>m. if m = 0 then attrs else Map.empty),
                       content = (\<lambda>e. []), trace = []\<rparr>"

section \<open>What the methods do\<close>

subsection \<open>The trace and the markup\<close>

lemma trace_log_event: "trace (log_event ev w) = trace w @ [ev]"
  and attributes_log_event: "attributes (log_event ev w) = attributes w"
  and content_log_event: "content (log_event ev w) = content w"
  by (simp_all add: log_event_def)

lemma template_calls_append: "template_calls (xs @ ys) = template_calls xs @ template_calls ys"
  by (induction xs rule: template_calls.induct) simp_all

lemma html_set_append: "html_set (xs @ ys) = html_set xs @ html_set ys"
  by (induction xs rule: html_set.induct) simp_all

lemma tracking_calls_append: "tracking_calls (xs @ ys) = tracking_calls xs @ tracking_calls ys"
  by (induction xs rule: tracking_calls.induct) simp_all

lemma with_class_filter: "with_class c n = filter (has_class c) (subnodes n)"
proof (induction c n rule: with_class.induct)
  case (1 c s)
  show ?case by simp
next
  case (2 c t cs kids)
  have "concat (map (with_class c) kids) = concat (map (\<lambda>k. filter (has_class c) (subnodes k)) kids)"
    using 2 by (simp cong: map_cong)
  then show ?case by (simp add: filter_concat comp_def)
qed

lemma jq_find_class: "jq_find (CHR ''.'' # c) ns = filter (has_class c) (concat (map subnodes ns))"
proof -
  have "with_class c = (\<lambda>n. filter (has_class c) (subnodes n))"
    by (rule ext) (rule with_class_filter)
  then show ?thesis by (simp add: filter_concat comp_def)
qed

lemma render_Done:
  assumes "model this = Some m" and "messageTpl this = Some t"
  shows "render tpl this w =
    Done this (w\<lparr>content := (case view_el this of None \<Rightarrow> content w
                 | Some e \<Rightarrow> (content w)(e := tpl t ([''is_eligible_for_subscription'' \<mapsto> JBool True,
                          ''subscription_state'' \<mapsto> JStr ''active'',
                          ''subscription_price'' \<mapsto> JStr ''$39'',
                          ''trial_length'' \<mapsto> JNum 7] ++ attributes w m))),
               trace := trace w @
                 [ToJSON m,
                  Extend [''is_eligible_for_subscription'' \<mapsto> JBool True,
                          ''subscription_state'' \<mapsto> JStr ''active'',
                          ''subscription_price'' \<mapsto> JStr ''$39'',
                          ''trial_length'' \<mapsto> JNum 7] (attributes w m),
                  MessageTpl t ([''is_eligible_for_subscription'' \<mapsto> JBool True,
                          ''subscription_state'' \<mapsto> JStr ''active'',
                          ''subscription_price'' \<mapsto> JStr ''$39'',
                          ''trial_length'' \<mapsto> JNum 7] ++ attributes w m),
                  SetHtml (view_el this) (tpl t ([''is_eligible_for_subscription'' \<mapsto> JBool True,
                          ''subscription_state'' \<mapsto> JStr ''active'',
                          ''subscription_price'' \<mapsto> JStr ''$39'',
                          ''trial_length'' \<mapsto> JNum 7] ++ attributes w m))]\<rparr>)"
  using assms
  by (cases "view_el this") (simp_all add: render_def Let_def log_event_def jq_extend_def toJSON_def)

lemma render_no_model: "model this = None \<Longrightarrow> render tpl this w = Threw TypeError this w"
  by (simp add: render_def)

lemma final_view_render: "final_view (render tpl this w) = this"
  by (simp add: render_def Let_def split: option.splits)

lemma attributes_render: "attributes (final_world (render tpl this w)) = attributes w"
  by (cases "view_el this") (simp_all add: render_def Let_def log_event_def split: option.splits)

lemma initialize_Done:
  assumes "model this = Some m" and "el opts = Some e"
  shows "initialize tpl this opts w =
    (let t = (if truthy (is_eligible_for_subscription opts)
              then upgradeMessageSubscriptionTpl else upgradeMessageTpl);
         defaults = [''is_eligible_for_subscription'' \<mapsto> JBool True,
                     ''subscription_state'' \<mapsto> JStr ''active'',
                     ''subscription_price'' \<mapsto> JStr ''$39'',
                     ''trial_length'' \<mapsto> JNum 7];
         data = defaults ++ attributes w m;
         html = tpl t data
     in Done (this\<lparr>messageTpl := Some t, view_el := Some e\<rparr>)
          (w\<lparr>content := (content w)(e := html),
             trace := trace w @
               [Template t, SetMessageTpl t, SetEl (Some e), ToJSON m,
                Extend defaults (attributes w m), MessageTpl t data, SetHtml (Some e) html,
                Find e ''.program_dashboard_course_upsell_button'',
                TrackUpsellClick (jq_find ''.program_dashboard_course_upsell_button'' html)
                  ''program_dashboard_course''
                  \<lparr>linkType = ''button'', pageName = ''program_dashboard'',
                   linkCategory = ''green_upgrade''\<rparr>]\<rparr>))"
  using assms
  by (simp add: initialize_def assign_messageTpl_def assign_el_def render_Done Let_def
      log_event_def trackUpsellClick_def del: jq_find.simps)

lemma initialize_no_model:
  assumes "model this = None"
  shows "initialize tpl this opts w =
    (let t = (if truthy (is_eligible_for_subscription opts)
              then upgradeMessageSubscriptionTpl else upgradeMessageTpl)
     in Threw TypeError (this\<lparr>messageTpl := Some t, view_el := el opts\<rparr>)
          (w\<lparr>trace := trace w @ [Template t, SetMessageTpl t, SetEl (el opts)]\<rparr>))"
  using assms
  by (simp add: initialize_def assign_messageTpl_def assign_el_def render_no_model Let_def
      log_event_def)

lemma initialize_no_el:
  assumes "model this = Some m" and "el opts = None"
  shows "initialize tpl this opts w =
    (let t = (if truthy (is_eligible_for_subscription opts)
              then upgradeMessageSubscriptionTpl else upgradeMessageTpl);
         defaults = [''is_eligible_for_subscription'' \<mapsto> JBool True,
                     ''subscription_state'' \<mapsto> JStr ''active'',
                     ''subscription_price'' \<mapsto> JStr ''$39'',
                     ''trial_length'' \<mapsto> JNum 7];
         data = defaults ++ attributes w m
     in Threw TypeError (this\<lparr>messageTpl := Some t, view_el := None\<rparr>)
          (w\<lparr>trace := trace w @
               [Template t, SetMessageTpl t, SetEl None, ToJSON m,
                Extend defaults (attributes w m), MessageTpl t data,
                SetHtml None (tpl t data)]\<rparr>))"
  using assms
  by (simp add: initialize_def assign_messageTpl_def assign_el_def render_Done Let_def
      log_event_def)

lemma template_calls_initialize:
  assumes "model this = Some m"
  shows "template_calls (trace (final_world (initialize tpl this opts w))) =
         template_calls (trace w) @
           [(if truthy (is_eligible_for_subscription opts)
             then upgradeMessageSubscriptionTpl else upgradeMessageTpl,
             [''is_eligible_for_subscription'' \<mapsto> JBool True,
              ''subscription_state'' \<mapsto> JStr ''active'',
              ''subscription_price'' \<mapsto> JStr ''$39'',
              ''trial_length'' \<mapsto> JNum 7] ++ attributes w m)]"
proof (cases "el opts")
  case None
  show ?thesis
    by (simp add: initialize_no_el [OF assms None] Let_def template_calls_append)
next
  case (Some e)
  show ?thesis
    by (simp add: initialize_Done [OF assms Some] Let_def template_calls_append
        del: jq_find.simps)
qed

lemma initialize_cases:
  fixes this :: view and opts :: options
  obtains (no_model) "model this = None"
  | (no_el) m where "model this = Some m" and "el opts = None"
  | (ok) m e where "model this = Some m" and "el opts = Some e"
  by (cases "model this"; cases "el opts") auto

lemma final_view_initialize:
  "final_view (initialize tpl this opts w) =
     this\<lparr>messageTpl := Some (if truthy (is_eligible_for_subscription opts)
                              then upgradeMessageSubscriptionTpl else upgradeMessageTpl),
          view_el := el opts\<rparr>"
proof (cases rule: initialize_cases [where this = this and opts = opts])
  case no_model
  then show ?thesis by (simp add: initialize_no_model Let_def)
next
  case (no_el m)
  then show ?thesis by (simp add: initialize_no_el Let_def)
next
  case (ok m e)
  then show ?thesis by (simp add: initialize_Done Let_def del: jq_find.simps)
qed

lemma attributes_initialize: "attributes (final_world (initialize tpl this opts w)) = attributes w"
proof (cases rule: initialize_cases [where this = this and opts = opts])
  case no_model
  then show ?thesis by (simp add: initialize_no_model Let_def)
next
  case (no_el m)
  then show ?thesis by (simp add: initialize_no_el Let_def)
next
  case (ok m e)
  then show ?thesis by (simp add: initialize_Done Let_def del: jq_find.simps)
qed

lemma final_world_initialize_Done:
  assumes "model this = Some m" and "el opts = Some e"
  shows "content (final_world (initialize tpl this opts w)) e =
           tpl (if truthy (is_eligible_for_subscription opts)
                then upgradeMessageSubscriptionTpl else upgradeMessageTpl)
               ([''is_eligible_for_subscription'' \<mapsto> JBool True,
                 ''subscription_state'' \<mapsto> JStr ''active'',
                 ''subscription_price'' \<mapsto> JStr ''$39'',
                 ''trial_length'' \<mapsto> JNum 7] ++ attributes w m)"
    and "tracking_calls (trace (final_world (initialize tpl this opts w))) =
           tracking_calls (trace w) @
             [(jq_find ''.program_dashboard_course_upsell_button''
                 (content (final_world (initialize tpl this opts w)) e),
               ''program_dashboard_course'',
               \<lparr>linkType = ''button'', pageName = ''program_dashboard'',
                linkCategory = ''green_upgrade''\<rparr>)]"
    and "completes (initialize tpl this opts w)"
  by (simp_all add: initialize_Done [OF assms] Let_def tracking_calls_append
      del: jq_find.simps)

lemma after_renders_same: "after_renders tpl this ws = this"
  by (induction ws arbitrary: this) (simp_all add: final_view_render)

section \<open>The properties of the specification\<close>

text \<open>
  C1. When the option \<open>is_eligible_for_subscription\<close> is false and the model has no
  field of that name, the data passed to the selected template, the standard one,
  still has \<open>is_eligible_for_subscription = true\<close>. With the model
  \<open>{subscription_price: "$99"}\<close> the data is \<open>{is_eligible_for_subscription: true,
  subscription_state: "active", subscription_price: "$99", trial_length: 7}\<close>.
\<close>

theorem flag_default_true_when_option_false:
  assumes "\<not> truthy (is_eligible_for_subscription opts)"
    and "model this = Some m"
    and "attributes w m ''is_eligible_for_subscription'' = None"
  shows "\<exists>data.
      template_calls (trace (final_world (initialize tpl this opts w))) =
        template_calls (trace w) @ [(upgradeMessageTpl, data)]
    \<and> data ''is_eligible_for_subscription'' = Some (JBool True)
    \<and> (attributes w m = [''subscription_price'' \<mapsto> JStr ''$99''] \<longrightarrow>
         data = [''is_eligible_for_subscription'' \<mapsto> JBool True,
                 ''subscription_state'' \<mapsto> JStr ''active'',
                 ''subscription_price'' \<mapsto> JStr ''$99'',
                 ''trial_length'' \<mapsto> JNum 7])"
proof -
  let ?defaults = "[''is_eligible_for_subscription'' \<mapsto> JBool True,
                    ''subscription_state'' \<mapsto> JStr ''active'',
                    ''subscription_price'' \<mapsto> JStr ''$39'',
                    ''trial_length'' \<mapsto> JNum 7]"
  let ?data = "?defaults ++ attributes w m"
  have invoked: "template_calls (trace (final_world (initialize tpl this opts w))) =
      template_calls (trace w) @ [(upgradeMessageTpl, ?data)]"
    using assms(1) template_calls_initialize [OF assms(2), of tpl opts w] by simp
  have flag: "?data ''is_eligible_for_subscription'' = Some (JBool True)"
    using assms(3) by (simp add: map_add_def)
  have scenario: "?defaults ++ [''subscription_price'' \<mapsto> JStr ''$99''] =
      [''is_eligible_for_subscription'' \<mapsto> JBool True,
       ''subscription_state'' \<mapsto> JStr ''active'',
       ''subscription_price'' \<mapsto> JStr ''$99'',
       ''trial_length'' \<mapsto> JNum 7]"
    by (rule ext) (simp add: map_add_def)
  from invoked flag scenario show ?thesis by auto
qed

text \<open>Scenario B of the specification, on the example page.\<close>

theorem flag_default_true_when_option_false_witness:
  "\<not> truthy (is_eligible_for_subscription
        \<lparr>is_eligible_for_subscription = Some (JBool False), el = Some 0\<rparr>)
   \<and> model (fresh_view (Some 0)) = Some 0
   \<and> attributes (page_with [''subscription_price'' \<mapsto> JStr ''$99'']) 0
        ''is_eligible_for_subscription'' = None
   \<and> template_calls (trace (final_world (initialize example_tpl (fresh_view (Some 0))
        \<lparr>is_eligible_for_subscription = Some (JBool False), el = Some 0\<rparr>
        (page_with [''subscription_price'' \<mapsto> JStr ''$99'']))))
      = [(upgradeMessageTpl,
          [''is_eligible_for_subscription'' \<mapsto> JBool True,
           ''subscription_state'' \<mapsto> JStr ''active'',
           ''subscription_price'' \<mapsto> JStr ''$99'',
           ''trial_length'' \<mapsto> JNum 7])]"
proof -
  let ?opts = "\<lparr>is_eligible_for_subscription = Some (JBool False), el = Some 0\<rparr>"
  let ?w = "page_with [''subscription_price'' \<mapsto> JStr ''$99'']"
  have h1: "\<not> truthy (is_eligible_for_subscription ?opts)" by simp
  have h2: "model (fresh_view (Some 0)) = Some 0" by (simp add: fresh_view_def)
  have h3: "attributes ?w 0 ''is_eligible_for_subscription'' = None"
    by (simp add: page_with_def)
  have h4: "attributes ?w 0 = [''subscription_price'' \<mapsto> JStr ''$99'']"
    by (simp add: page_with_def)
  have h5: "template_calls (trace ?w) = []" by (simp add: page_with_def)
  from flag_default_true_when_option_false [OF h1 h2 h3, of example_tpl] h4 h5
  show ?thesis using h1 h2 h3 by auto
qed

text \<open>
  C2. Construction selects the subscription template when the option
  \<open>is_eligible_for_subscription\<close> is true and the standard template when it is
  false, and the template selected is the one invoked during render.
\<close>

theorem template_selected_by_option:
  assumes "is_eligible_for_subscription opts = Some (JBool b)"
  shows "messageTpl (final_view (initialize tpl this opts w)) =
           Some (if b then upgradeMessageSubscriptionTpl else upgradeMessageTpl)
       \<and> (model this = Some m \<longrightarrow>
            map fst (template_calls (trace (final_world (initialize tpl this opts w)))) =
              map fst (template_calls (trace w)) @
                [if b then upgradeMessageSubscriptionTpl else upgradeMessageTpl])"
proof (intro conjI impI)
  show "messageTpl (final_view (initialize tpl this opts w)) =
          Some (if b then upgradeMessageSubscriptionTpl else upgradeMessageTpl)"
    using assms by (simp add: final_view_initialize)
next
  assume "model this = Some m"
  from template_calls_initialize [OF this, of tpl opts w] assms
  show "map fst (template_calls (trace (final_world (initialize tpl this opts w)))) =
          map fst (template_calls (trace w)) @
            [if b then upgradeMessageSubscriptionTpl else upgradeMessageTpl]"
    by simp
qed

text \<open>Both values of the option, on the example page.\<close>

theorem template_selected_by_option_witness:
  "messageTpl (final_view (initialize example_tpl (fresh_view (Some 0))
       \<lparr>is_eligible_for_subscription = Some (JBool True), el = Some 0\<rparr> (page_with Map.empty)))
     = Some upgradeMessageSubscriptionTpl
   \<and> map fst (template_calls (trace (final_world (initialize example_tpl (fresh_view (Some 0))
       \<lparr>is_eligible_for_subscription = Some (JBool True), el = Some 0\<rparr> (page_with Map.empty)))))
     = [upgradeMessageSubscriptionTpl]
   \<and> messageTpl (final_view (initialize example_tpl (fresh_view (Some 0))
       \<lparr>is_eligible_for_subscription = Some (JBool False), el = Some 0\<rparr> (page_with Map.empty)))
     = Some upgradeMessageTpl
   \<and> map fst (template_calls (trace (final_world (initialize example_tpl (fresh_view (Some 0))
       \<lparr>is_eligible_for_subscription = Some (JBool False), el = Some 0\<rparr> (page_with Map.empty)))))
     = [upgradeMessageTpl]"
proof -
  have m: "model (fresh_view (Some 0)) = Some 0" by (simp add: fresh_view_def)
  have t: "template_calls (trace (page_with Map.empty)) = []" by (simp add: page_with_def)
  have yes: "is_eligible_for_subscription
      \<lparr>is_eligible_for_subscription = Some (JBool True), el = Some 0\<rparr> = Some (JBool True)"
    by simp
  have no: "is_eligible_for_subscription
      \<lparr>is_eligible_for_subscription = Some (JBool False), el = Some 0\<rparr> = Some (JBool False)"
    by simp
  from template_selected_by_option [OF yes, of example_tpl "fresh_view (Some 0)" "page_with Map.empty" 0]
       template_selected_by_option [OF no, of example_tpl "fresh_view (Some 0)" "page_with Map.empty" 0]
       m t
  show ?thesis by simp
qed

text \<open>
  C3. The data passed to the template is the default record
  \<open>{is_eligible_for_subscription: true, subscription_state: "active",
  subscription_price: "$39", trial_length: 7}\<close> merged with the serialized model: a
  field of the model overrides the default of the same name, and each of the four
  defaults is used exactly when the model does not define the field.
\<close>

theorem render_data_defaults_overridden_by_model:
  assumes "model this = Some m" and "messageTpl this = Some t"
  shows "\<exists>data.
      template_calls (trace (final_world (render tpl this w))) =
        template_calls (trace w) @ [(t, data)]
    \<and> data = [''is_eligible_for_subscription'' \<mapsto> JBool True,
               ''subscription_state'' \<mapsto> JStr ''active'',
               ''subscription_price'' \<mapsto> JStr ''$39'',
               ''trial_length'' \<mapsto> JNum 7] ++ toJSON m w
    \<and> (\<forall>k. data k =
          (case toJSON m w k of
             Some v \<Rightarrow> Some v
           | None \<Rightarrow> [''is_eligible_for_subscription'' \<mapsto> JBool True,
                      ''subscription_state'' \<mapsto> JStr ''active'',
                      ''subscription_price'' \<mapsto> JStr ''$39'',
                      ''trial_length'' \<mapsto> JNum 7] k))
    \<and> data ''is_eligible_for_subscription'' =
        (case toJSON m w ''is_eligible_for_subscription'' of
           Some v \<Rightarrow> Some v | None \<Rightarrow> Some (JBool True))
    \<and> data ''subscription_state'' =
        (case toJSON m w ''subscription_state'' of
           Some v \<Rightarrow> Some v | None \<Rightarrow> Some (JStr ''active''))
    \<and> data ''subscription_price'' =
        (case toJSON m w ''subscription_price'' of
           Some v \<Rightarrow> Some v | None \<Rightarrow> Some (JStr ''$39''))
    \<and> data ''trial_length'' =
        (case toJSON m w ''trial_length'' of
           Some v \<Rightarrow> Some v | None \<Rightarrow> Some (JNum 7))"
proof -
  let ?defaults = "[''is_eligible_for_subscription'' \<mapsto> JBool True,
                    ''subscription_state'' \<mapsto> JStr ''active'',
                    ''subscription_price'' \<mapsto> JStr ''$39'',
                    ''trial_length'' \<mapsto> JNum 7]"
  let ?data = "?defaults ++ toJSON m w"
  have invoked: "template_calls (trace (final_world (render tpl this w))) =
      template_calls (trace w) @ [(t, ?data)]"
    by (simp add: render_Done [OF assms] template_calls_append toJSON_def)
  have each: "?data k = (case toJSON m w k of Some v \<Rightarrow> Some v | None \<Rightarrow> ?defaults k)" for k
    by (simp add: map_add_def split: option.splits)
  have f1: "?data ''is_eligible_for_subscription'' =
      (case toJSON m w ''is_eligible_for_subscription'' of
         Some v \<Rightarrow> Some v | None \<Rightarrow> Some (JBool True))"
    by (simp add: map_add_def split: option.splits)
  have f2: "?data ''subscription_state'' =
      (case toJSON m w ''subscription_state'' of
         Some v \<Rightarrow> Some v | None \<Rightarrow> Some (JStr ''active''))"
    by (simp add: map_add_def split: option.splits)
  have f3: "?data ''subscription_price'' =
      (case toJSON m w ''subscription_price'' of
         Some v \<Rightarrow> Some v | None \<Rightarrow> Some (JStr ''$39''))"
    by (simp add: map_add_def split: option.splits)
  have f4: "?data ''trial_length'' =
      (case toJSON m w ''trial_length'' of
         Some v \<Rightarrow> Some v | None \<Rightarrow> Some (JNum 7))"
    by (simp add: map_add_def split: option.splits)
  from invoked each f1 f2 f3 f4 show ?thesis by blast
qed

text \<open>A model that overrides two of the four defaults.\<close>

theorem render_data_defaults_overridden_by_model_witness:
  "model \<lparr>messageTpl = Some upgradeMessageTpl, view_el = Some 0, model = Some 0\<rparr> = Some 0
   \<and> messageTpl \<lparr>messageTpl = Some upgradeMessageTpl, view_el = Some 0, model = Some 0\<rparr>
       = Some upgradeMessageTpl
   \<and> (\<exists>data.
        template_calls (trace (final_world (render example_tpl
           \<lparr>messageTpl = Some upgradeMessageTpl, view_el = Some 0, model = Some 0\<rparr>
           (page_with [''subscription_price'' \<mapsto> JStr ''$99'', ''trial_length'' \<mapsto> JNum 14]))))
          = [(upgradeMessageTpl, data)]
      \<and> data ''is_eligible_for_subscription'' = Some (JBool True)
      \<and> data ''subscription_state'' = Some (JStr ''active'')
      \<and> data ''subscription_price'' = Some (JStr ''$99'')
      \<and> data ''trial_length'' = Some (JNum 14))"
proof -
  let ?v = "\<lparr>messageTpl = Some upgradeMessageTpl, view_el = Some 0, model = Some 0\<rparr>"
  let ?w = "page_with [''subscription_price'' \<mapsto> JStr ''$99'', ''trial_length'' \<mapsto> JNum 14]"
  have h1: "model ?v = Some 0" by simp
  have h2: "messageTpl ?v = Some upgradeMessageTpl" by simp
  have t: "template_calls (trace ?w) = []" by (simp add: page_with_def)
  have j: "toJSON 0 ?w = [''subscription_price'' \<mapsto> JStr ''$99'', ''trial_length'' \<mapsto> JNum 14]"
    by (simp add: toJSON_def page_with_def)
  from render_data_defaults_overridden_by_model [OF h1 h2, of example_tpl ?w]
  obtain data where
    d: "template_calls (trace (final_world (render example_tpl ?v ?w))) =
          template_calls (trace ?w) @ [(upgradeMessageTpl, data)]"
      "data ''is_eligible_for_subscription'' =
        (case toJSON 0 ?w ''is_eligible_for_subscription'' of
           Some v \<Rightarrow> Some v | None \<Rightarrow> Some (JBool True))"
      "data ''subscription_state'' =
        (case toJSON 0 ?w ''subscription_state'' of
           Some v \<Rightarrow> Some v | None \<Rightarrow> Some (JStr ''active''))"
      "data ''subscription_price'' =
        (case toJSON 0 ?w ''subscription_price'' of
           Some v \<Rightarrow> Some v | None \<Rightarrow> Some (JStr ''$39''))"
      "data ''trial_length'' =
        (case toJSON 0 ?w ''trial_length'' of
           Some v \<Rightarrow> Some v | None \<Rightarrow> Some (JNum 7))"
    by blast
  from d t j have
    "template_calls (trace (final_world (render example_tpl ?v ?w))) = [(upgradeMessageTpl, data)]
     \<and> data ''is_eligible_for_subscription'' = Some (JBool True)
     \<and> data ''subscription_state'' = Some (JStr ''active'')
     \<and> data ''subscription_price'' = Some (JStr ''$99'')
     \<and> data ''trial_length'' = Some (JNum 14)"
    by simp
  then show ?thesis using h1 h2 by blast
qed

text \<open>
  C4. After render, \<open>trackUpsellClick\<close> is invoked exactly once, with all the elements
  of the mount point that match \<open>.program_dashboard_course_upsell_button\<close>, however
  many there are, the category \<open>"program_dashboard_course"\<close> and the context
  \<open>{linkType: "button", pageName: "program_dashboard", linkCategory: "green_upgrade"}\<close>.
  The mount point and the model are those the construction contract asks for.
\<close>

theorem tracking_registered_once_with_all_buttons:
  assumes "model this = Some m" and "el opts = Some e"
  shows "\<exists>elts.
      completes (initialize tpl this opts w)
    \<and> tracking_calls (trace (final_world (initialize tpl this opts w))) =
        tracking_calls (trace w) @
          [(elts, ''program_dashboard_course'',
            \<lparr>linkType = ''button'', pageName = ''program_dashboard'',
             linkCategory = ''green_upgrade''\<rparr>)]
    \<and> elts = jq_find ''.program_dashboard_course_upsell_button''
               (content (final_world (initialize tpl this opts w)) e)
    \<and> elts = filter (has_class ''program_dashboard_course_upsell_button'')
               (concat (map subnodes (content (final_world (initialize tpl this opts w)) e)))"
proof -
  let ?R = "initialize tpl this opts w"
  let ?elts = "jq_find ''.program_dashboard_course_upsell_button'' (content (final_world ?R) e)"
  have all: "?elts = filter (has_class ''program_dashboard_course_upsell_button'')
               (concat (map subnodes (content (final_world ?R) e)))"
    by (rule jq_find_class)
  from final_world_initialize_Done(2,3) [OF assms, of tpl w] all
  show ?thesis by blast
qed

text \<open>The standard example template has one upsell button.\<close>

theorem tracking_registered_once_with_all_buttons_witness:
  "model (fresh_view (Some 0)) = Some 0
   \<and> el \<lparr>is_eligible_for_subscription = Some (JBool False), el = Some 0\<rparr> = Some 0
   \<and> completes (initialize example_tpl (fresh_view (Some 0))
        \<lparr>is_eligible_for_subscription = Some (JBool False), el = Some 0\<rparr> (page_with Map.empty))
   \<and> tracking_calls (trace (final_world (initialize example_tpl (fresh_view (Some 0))
        \<lparr>is_eligible_for_subscription = Some (JBool False), el = Some 0\<rparr> (page_with Map.empty))))
      = [([Element ''a'' [''btn'', ''program_dashboard_course_upsell_button''] [Text ''Upgrade'']],
          ''program_dashboard_course'',
          \<lparr>linkType = ''button'', pageName = ''program_dashboard'',
           linkCategory = ''green_upgrade''\<rparr>)]"
proof -
  let ?opts = "\<lparr>is_eligible_for_subscription = Some (JBool False), el = Some 0\<rparr>"
  let ?R = "initialize example_tpl (fresh_view (Some 0)) ?opts (page_with Map.empty)"
  have h1: "model (fresh_view (Some 0)) = Some 0" by (simp add: fresh_view_def)
  have h2: "el ?opts = Some 0" by simp
  have t: "tracking_calls (trace (page_with Map.empty)) = []" by (simp add: page_with_def)
  have c: "content (final_world ?R) 0 =
      [Element ''div'' [''upgrade-message'']
        [Text ''$39'',
         Element ''a'' [''btn'', ''program_dashboard_course_upsell_button''] [Text ''Upgrade'']]]"
    by (simp add: final_world_initialize_Done(1) [OF h1 h2] page_with_def)
  have f: "filter (has_class ''program_dashboard_course_upsell_button'')
      (concat (map subnodes (content (final_world ?R) 0))) =
      [Element ''a'' [''btn'', ''program_dashboard_course_upsell_button''] [Text ''Upgrade'']]"
    unfolding c by simp
  from tracking_registered_once_with_all_buttons [OF h1 h2, of example_tpl "page_with Map.empty"]
  show ?thesis using h1 h2 t f by auto
qed

text \<open>
  C8. When the rendered markup has no element matching
  \<open>.program_dashboard_course_upsell_button\<close>, construction still completes, and the
  tracking collaborator is invoked once, with an empty collection.
\<close>

theorem no_button_is_no_error:
  assumes "model this = Some m" and "el opts = Some e"
    and "filter (has_class ''program_dashboard_course_upsell_button'')
           (concat (map subnodes (content (final_world (initialize tpl this opts w)) e))) = []"
  shows "completes (initialize tpl this opts w)
    \<and> tracking_calls (trace (final_world (initialize tpl this opts w))) =
        tracking_calls (trace w) @
          [([], ''program_dashboard_course'',
            \<lparr>linkType = ''button'', pageName = ''program_dashboard'',
             linkCategory = ''green_upgrade''\<rparr>)]"
proof -
  let ?R = "initialize tpl this opts w"
  have "jq_find ''.program_dashboard_course_upsell_button'' (content (final_world ?R) e) = []"
    using assms(3) by (simp only: jq_find_class)
  with final_world_initialize_Done(2,3) [OF assms(1,2), of tpl w]
  show ?thesis by simp
qed

text \<open>The subscription example template has no upsell button.\<close>

theorem no_button_is_no_error_witness:
  "model (fresh_view (Some 0)) = Some 0
   \<and> el \<lparr>is_eligible_for_subscription = Some (JBool True), el = Some 0\<rparr> = Some 0
   \<and> filter (has_class ''program_dashboard_course_upsell_button'')
        (concat (map subnodes (content (final_world (initialize example_tpl (fresh_view (Some 0))
          \<lparr>is_eligible_for_subscription = Some (JBool True), el = Some 0\<rparr>
          (page_with Map.empty))) 0))) = []
   \<and> completes (initialize example_tpl (fresh_view (Some 0))
        \<lparr>is_eligible_for_subscription = Some (JBool True), el = Some 0\<rparr> (page_with Map.empty))
   \<and> tracking_calls (trace (final_world (initialize example_tpl (fresh_view (Some 0))
        \<lparr>is_eligible_for_subscription = Some (JBool True), el = Some 0\<rparr> (page_with Map.empty))))
      = [([], ''program_dashboard_course'',
          \<lparr>linkType = ''button'', pageName = ''program_dashboard'',
           linkCategory = ''green_upgrade''\<rparr>)]"
proof -
  let ?opts = "\<lparr>is_eligible_for_subscription = Some (JBool True), el = Some 0\<rparr>"
  let ?R = "initialize example_tpl (fresh_view (Some 0)) ?opts (page_with Map.empty)"
  have h1: "model (fresh_view (Some 0)) = Some 0" by (simp add: fresh_view_def)
  have h2: "el ?opts = Some 0" by simp
  have t: "tracking_calls (trace (page_with Map.empty)) = []" by (simp add: page_with_def)
  have c: "content (final_world ?R) 0 =
      [Element ''div'' [''subscription-message''] [Text ''Subscribe'']]"
    by (simp add: final_world_initialize_Done(1) [OF h1 h2])
  have h3: "filter (has_class ''program_dashboard_course_upsell_button'')
      (concat (map subnodes (content (final_world ?R) 0))) = []"
    unfolding c by simp
  from no_button_is_no_error [OF h1 h2 h3] show ?thesis using h1 h2 h3 t by simp
qed

text \<open>
  C5. Render is idempotent in the markup it produces: when the model is the same at
  two render calls, both calls produce the same markup and leave the mount point
  with the same content. A render call itself leaves the model as it was, so the
  second call may follow the first directly.
\<close>

theorem render_idempotent:
  assumes "render tpl this w = Done this1 w1"
    and "model this = Some m"
    and "attributes w' m = attributes w m"
  shows "\<exists>html w2.
      render tpl this1 w' = Done this1 w2
    \<and> html_set (trace w1) = html_set (trace w) @ [(view_el this, html)]
    \<and> html_set (trace w2) = html_set (trace w') @ [(view_el this, html)]
    \<and> (\<forall>e. view_el this = Some e \<longrightarrow> content w1 e = html \<and> content w2 e = html)
    \<and> attributes w1 m = attributes w m"
proof -
  from assms(1,2) obtain t where t: "messageTpl this = Some t"
    by (cases "messageTpl this") (simp_all add: render_def Let_def)
  let ?html = "tpl t ([''is_eligible_for_subscription'' \<mapsto> JBool True,
                       ''subscription_state'' \<mapsto> JStr ''active'',
                       ''subscription_price'' \<mapsto> JStr ''$39'',
                       ''trial_length'' \<mapsto> JNum 7] ++ attributes w m)"
  have same: "this1 = this"
    using final_view_render [of tpl this w] assms(1) by simp
  have first: "html_set (trace w1) = html_set (trace w) @ [(view_el this, ?html)]"
    "\<forall>e. view_el this = Some e \<longrightarrow> content w1 e = ?html"
    "attributes w1 m = attributes w m"
    using assms(1) by (auto simp add: render_Done [OF assms(2) t] html_set_append)
  let ?w2 = "final_world (render tpl this w')"
  have again: "render tpl this1 w' = Done this1 ?w2"
    unfolding same by (simp add: render_Done [OF assms(2) t])
  have second: "html_set (trace ?w2) = html_set (trace w') @ [(view_el this, ?html)]"
    "\<forall>e. view_el this = Some e \<longrightarrow> content ?w2 e = ?html"
    using assms(3) by (auto simp add: render_Done [OF assms(2) t] html_set_append)
  from again first second show ?thesis by blast
qed

text \<open>Two render calls in a row, of a view with the standard template on the example page.\<close>

theorem render_idempotent_witness:
  "(\<exists>w1 w2.
       render example_tpl \<lparr>messageTpl = Some upgradeMessageTpl, view_el = Some 0, model = Some 0\<rparr>
         (page_with [''subscription_price'' \<mapsto> JStr ''$99''])
       = Done \<lparr>messageTpl = Some upgradeMessageTpl, view_el = Some 0, model = Some 0\<rparr> w1
     \<and> render example_tpl \<lparr>messageTpl = Some upgradeMessageTpl, view_el = Some 0, model = Some 0\<rparr> w1
       = Done \<lparr>messageTpl = Some upgradeMessageTpl, view_el = Some 0, model = Some 0\<rparr> w2
     \<and> attributes w1 0 = attributes (page_with [''subscription_price'' \<mapsto> JStr ''$99'']) 0
     \<and> content w1 0 = content w2 0
     \<and> html_set (trace w2) = html_set (trace w1) @ html_set (trace w1))"
proof -
  let ?v = "\<lparr>messageTpl = Some upgradeMessageTpl, view_el = Some 0, model = Some 0\<rparr>"
  let ?w = "page_with [''subscription_price'' \<mapsto> JStr ''$99'']"
  let ?w1 = "final_world (render example_tpl ?v ?w)"
  have h1: "render example_tpl ?v ?w = Done ?v ?w1"
    by (simp add: render_Done [of ?v 0 upgradeMessageTpl])
  have h2: "model ?v = Some 0" by simp
  have h3: "attributes ?w1 0 = attributes ?w 0" by (simp add: attributes_render)
  have t: "html_set (trace ?w) = []" by (simp add: page_with_def)
  from render_idempotent [OF h1 h2 h3]
  obtain html w2 where
    r: "render example_tpl ?v ?w1 = Done ?v w2"
      "html_set (trace ?w1) = html_set (trace ?w) @ [(view_el ?v, html)]"
      "html_set (trace w2) = html_set (trace ?w1) @ [(view_el ?v, html)]"
      "\<forall>e. view_el ?v = Some e \<longrightarrow> content ?w1 e = html \<and> content w2 e = html"
    by blast
  from r(4) have c: "content ?w1 0 = content w2 0" by simp
  from r(2,3) t have s: "html_set (trace w2) = html_set (trace ?w1) @ html_set (trace ?w1)"
    by simp
  from h1 r(1) h3 c s show ?thesis by blast
qed

text \<open>
  C6. When the model is absent at construction, serialization in render fails and the
  failure leaves the construction: nothing is rendered in its place. With a model and
  a mount point present, construction completes, whatever the flag.
\<close>

theorem missing_model_fails_construction:
  "(model this = None \<longrightarrow>
      render tpl this w = Threw TypeError this w
    \<and> (\<exists>this' w'. initialize tpl this opts w = Threw TypeError this' w'
          \<and> content w' = content w
          \<and> template_calls (trace w') = template_calls (trace w)
          \<and> html_set (trace w') = html_set (trace w)
          \<and> tracking_calls (trace w') = tracking_calls (trace w)))
   \<and> (model this = Some m \<and> el opts = Some e \<longrightarrow> completes (initialize tpl this opts w))"
proof (intro conjI impI)
  assume none: "model this = None"
  show "render tpl this w = Threw TypeError this w"
    using none by (rule render_no_model)
  show "\<exists>this' w'. initialize tpl this opts w = Threw TypeError this' w'
          \<and> content w' = content w
          \<and> template_calls (trace w') = template_calls (trace w)
          \<and> html_set (trace w') = html_set (trace w)
          \<and> tracking_calls (trace w') = tracking_calls (trace w)"
    by (simp add: initialize_no_model [OF none] Let_def template_calls_append
        html_set_append tracking_calls_append)
next
  assume "model this = Some m \<and> el opts = Some e"
  then show "completes (initialize tpl this opts w)"
    by (simp add: final_world_initialize_Done(3))
qed

text \<open>A view without a model, and the same view with one.\<close>

theorem missing_model_fails_construction_witness:
  "model (fresh_view None) = None
   \<and> initialize example_tpl (fresh_view None)
        \<lparr>is_eligible_for_subscription = Some (JBool True), el = Some 0\<rparr> (page_with Map.empty)
      = Threw TypeError
          \<lparr>messageTpl = Some upgradeMessageSubscriptionTpl, view_el = Some 0, model = None\<rparr>
          \<lparr>attributes = attributes (page_with Map.empty), content = content (page_with Map.empty),
           trace = [Template upgradeMessageSubscriptionTpl,
                    SetMessageTpl upgradeMessageSubscriptionTpl, SetEl (Some 0)]\<rparr>
   \<and> model (fresh_view (Some 0)) = Some 0
   \<and> el \<lparr>is_eligible_for_subscription = Some (JBool True), el = Some 0\<rparr> = Some 0
   \<and> completes (initialize example_tpl (fresh_view (Some 0))
        \<lparr>is_eligible_for_subscription = Some (JBool True), el = Some 0\<rparr> (page_with Map.empty))"
proof -
  let ?opts = "\<lparr>is_eligible_for_subscription = Some (JBool True), el = Some 0\<rparr>"
  have h1: "model (fresh_view None) = None" by (simp add: fresh_view_def)
  have h2: "model (fresh_view (Some 0)) = Some 0 \<and> el ?opts = Some 0"
    by (simp add: fresh_view_def)
  have threw: "\<exists>this' w'. initialize example_tpl (fresh_view None) ?opts (page_with Map.empty)
      = Threw TypeError this' w'"
    using missing_model_fails_construction
      [of "fresh_view None" example_tpl "page_with Map.empty" ?opts] h1
    by blast
  have v: "final_view (initialize example_tpl (fresh_view None) ?opts (page_with Map.empty)) =
      \<lparr>messageTpl = Some upgradeMessageSubscriptionTpl, view_el = Some 0, model = None\<rparr>"
    by (simp add: final_view_initialize fresh_view_def)
  have w: "final_world (initialize example_tpl (fresh_view None) ?opts (page_with Map.empty)) =
      \<lparr>attributes = attributes (page_with Map.empty), content = content (page_with Map.empty),
       trace = [Template upgradeMessageSubscriptionTpl,
                SetMessageTpl upgradeMessageSubscriptionTpl, SetEl (Some 0)]\<rparr>"
    by (simp add: initialize_no_model [OF h1] page_with_def)
  from threw v w have
    "initialize example_tpl (fresh_view None) ?opts (page_with Map.empty)
      = Threw TypeError
          \<lparr>messageTpl = Some upgradeMessageSubscriptionTpl, view_el = Some 0, model = None\<rparr>
          \<lparr>attributes = attributes (page_with Map.empty), content = content (page_with Map.empty),
           trace = [Template upgradeMessageSubscriptionTpl,
                    SetMessageTpl upgradeMessageSubscriptionTpl, SetEl (Some 0)]\<rparr>"
    by auto
  moreover have "completes (initialize example_tpl (fresh_view (Some 0)) ?opts (page_with Map.empty))"
    using missing_model_fails_construction
      [of "fresh_view (Some 0)" example_tpl "page_with Map.empty" ?opts 0 0] h2
    by blast
  ultimately show ?thesis using h1 h2 by blast
qed

text \<open>
  C7. Exactly one of the two templates is selected at construction, by the option
  \<open>is_eligible_for_subscription\<close> alone, and it stays selected: no later render call
  changes it, whatever happened to the page in between.
\<close>

theorem template_fixed_for_lifetime:
  "messageTpl (after_renders tpl (final_view (initialize tpl this opts w)) ws) =
     Some (if truthy (is_eligible_for_subscription opts)
           then upgradeMessageSubscriptionTpl else upgradeMessageTpl)"
  by (simp add: after_renders_same final_view_initialize)

text \<open>A construction followed by two render calls on changed pages.\<close>

theorem template_fixed_for_lifetime_witness:
  "messageTpl (after_renders example_tpl
      (final_view (initialize example_tpl (fresh_view (Some 0))
         \<lparr>is_eligible_for_subscription = Some (JBool False), el = Some 0\<rparr> (page_with Map.empty)))
      [page_with [''subscription_price'' \<mapsto> JStr ''$99''],
       page_with [''is_eligible_for_subscription'' \<mapsto> JBool True]])
   = Some upgradeMessageTpl"
  using template_fixed_for_lifetime [of example_tpl "fresh_view (Some 0)"
      "\<lparr>is_eligible_for_subscription = Some (JBool False), el = Some 0\<rparr>" "page_with Map.empty"
      "[page_with [''subscription_price'' \<mapsto> JStr ''$99''],
        page_with [''is_eligible_for_subscription'' \<mapsto> JBool True]]"]
  by simp

text \<open>
  C9. Within the one construction call the steps come in a fixed order: the template
  is selected, the mount point is stored, render merges the data and then sets the
  content of the mount point, and only then are the upsell buttons looked up and
  registered with the tracking collaborator. The lookup sees the content that render
  has just set, not what the mount point held before.
\<close>

theorem construction_steps_in_order:
  assumes "model this = Some m" and "el opts = Some e"
  shows "\<exists>t defaults data html.
      t = (if truthy (is_eligible_for_subscription opts)
           then upgradeMessageSubscriptionTpl else upgradeMessageTpl)
    \<and> defaults = [''is_eligible_for_subscription'' \<mapsto> JBool True,
                   ''subscription_state'' \<mapsto> JStr ''active'',
                   ''subscription_price'' \<mapsto> JStr ''$39'',
                   ''trial_length'' \<mapsto> JNum 7]
    \<and> data = defaults ++ attributes w m
    \<and> html = tpl t data
    \<and> completes (initialize tpl this opts w)
    \<and> trace (final_world (initialize tpl this opts w)) =
        trace w @
          [Template t, SetMessageTpl t,
           SetEl (Some e),
           ToJSON m, Extend defaults (attributes w m), MessageTpl t data,
           SetHtml (Some e) html,
           Find e ''.program_dashboard_course_upsell_button'',
           TrackUpsellClick (jq_find ''.program_dashboard_course_upsell_button'' html)
             ''program_dashboard_course''
             \<lparr>linkType = ''button'', pageName = ''program_dashboard'',
              linkCategory = ''green_upgrade''\<rparr>]
    \<and> content (final_world (initialize tpl this opts w)) e = html
    \<and> view_el (final_view (initialize tpl this opts w)) = Some e"
  by (simp add: initialize_Done [OF assms] Let_def del: jq_find.simps)

text \<open>
  The example page, where the mount point held a stale upsell button before the
  construction: the subscription template has none, and none is registered.
\<close>

theorem construction_steps_in_order_witness:
  "model (fresh_view (Some 0)) = Some 0
   \<and> el \<lparr>is_eligible_for_subscription = Some (JBool True), el = Some 0\<rparr> = Some 0
   \<and> jq_find ''.program_dashboard_course_upsell_button''
        (content ((page_with Map.empty)
           \<lparr>content := (\<lambda>e. [Element ''a'' [''program_dashboard_course_upsell_button''] []])\<rparr>) 0)
      = [Element ''a'' [''program_dashboard_course_upsell_button''] []]
   \<and> trace (final_world (initialize example_tpl (fresh_view (Some 0))
        \<lparr>is_eligible_for_subscription = Some (JBool True), el = Some 0\<rparr>
        ((page_with Map.empty)
           \<lparr>content := (\<lambda>e. [Element ''a'' [''program_dashboard_course_upsell_button''] []])\<rparr>)))
      = [Template upgradeMessageSubscriptionTpl, SetMessageTpl upgradeMessageSubscriptionTpl,
         SetEl (Some 0),
         ToJSON 0,
         Extend [''is_eligible_for_subscription'' \<mapsto> JBool True,
                 ''subscription_state'' \<mapsto> JStr ''active'',
                 ''subscription_price'' \<mapsto> JStr ''$39'',
                 ''trial_length'' \<mapsto> JNum 7] Map.empty,
         MessageTpl upgradeMessageSubscriptionTpl
                [''is_eligible_for_subscription'' \<mapsto> JBool True,
                 ''subscription_state'' \<mapsto> JStr ''active'',
                 ''subscription_price'' \<mapsto> JStr ''$39'',
                 ''trial_length'' \<mapsto> JNum 7],
         SetHtml (Some 0) [Element ''div'' [''subscription-message''] [Text ''Subscribe'']],
         Find 0 ''.program_dashboard_course_upsell_button'',
         TrackUpsellClick [] ''program_dashboard_course''
           \<lparr>linkType = ''button'', pageName = ''program_dashboard'',
            linkCategory = ''green_upgrade''\<rparr>]"
proof -
  let ?opts = "\<lparr>is_eligible_for_subscription = Some (JBool True), el = Some 0\<rparr>"
  let ?w = "(page_with Map.empty)
      \<lparr>content := (\<lambda>e. [Element ''a'' [''program_dashboard_course_upsell_button''] []])\<rparr>"
  have h1: "model (fresh_view (Some 0)) = Some 0" by (simp add: fresh_view_def)
  have h2: "el ?opts = Some 0" by simp
  have stale: "jq_find ''.program_dashboard_course_upsell_button'' (content ?w 0)
      = [Element ''a'' [''program_dashboard_course_upsell_button''] []]"
    by simp
  have t: "trace ?w = []" and a: "attributes ?w 0 = Map.empty" by (simp_all add: page_with_def)
  from construction_steps_in_order [OF h1 h2, where tpl = example_tpl and w = ?w]
  have "trace (final_world (initialize example_tpl (fresh_view (Some 0)) ?opts ?w))
      = [Template upgradeMessageSubscriptionTpl, SetMessageTpl upgradeMessageSubscriptionTpl,
         SetEl (Some 0),
         ToJSON 0,
         Extend [''is_eligible_for_subscription'' \<mapsto> JBool True,
                 ''subscription_state'' \<mapsto> JStr ''active'',
                 ''subscription_price'' \<mapsto> JStr ''$39'',
                 ''trial_length'' \<mapsto> JNum 7] Map.empty,
         MessageTpl upgradeMessageSubscriptionTpl
                [''is_eligible_for_subscription'' \<mapsto> JBool True,
                 ''subscription_state'' \<mapsto> JStr ''active'',
                 ''subscription_price'' \<mapsto> JStr ''$39'',
                 ''trial_length'' \<mapsto> JNum 7],
         SetHtml (Some 0) [Element ''div'' [''subscription-message''] [Text ''Subscribe'']],
         Find 0 ''.program_dashboard_course_upsell_button'',
         TrackUpsellClick [] ''program_dashboard_course''
           \<lparr>linkType = ''button'', pageName = ''program_dashboard'',
            linkCategory = ''green_upgrade''\<rparr>]"
    unfolding t a by simp
  with h1 h2 stale show ?thesis by blast
qed

text \<open>
  C10. Neither construction nor render changes the model: the attributes of every
  model are after \<open>initialize\<close>, and after any \<open>render\<close> call, what they were before,
  also when the method throws.
\<close>

theorem model_not_mutated:
  "attributes (final_world (initialize tpl this opts w)) = attributes w
   \<and> attributes (final_world (render tpl this w)) = attributes w"
  by (simp add: attributes_initialize attributes_render)

text \<open>The attributes of the model on the example page, after a construction.\<close>

theorem model_not_mutated_witness:
  "attributes (final_world (initialize example_tpl (fresh_view (Some 0))
      \<lparr>is_eligible_for_subscription = Some (JBool False), el = Some 0\<rparr>
      (page_with [''subscription_price'' \<mapsto> JStr ''$99'']))) 0 ''subscription_price''
     = Some (JStr ''$99'')
   \<and> attributes (final_world (initialize example_tpl (fresh_view (Some 0))
      \<lparr>is_eligible_for_subscription = Some (JBool False), el = Some 0\<rparr>
      (page_with [''subscription_price'' \<mapsto> JStr ''$99'']))) 0 ''trial_length''
     = None"
  using model_not_mutated [of example_tpl "fresh_view (Some 0)"
      "\<lparr>is_eligible_for_subscription = Some (JBool False), el = Some 0\<rparr>"
      "page_with [''subscription_price'' \<mapsto> JStr ''$99'']"]
  by (simp add: page_with_def)

end
